theory Spec2Isabelle
  imports Main "HOL-Library.Word"
begin

section \<open>Go values shared by the model of cmd/frieza/main.go\<close>

text \<open>
  A Go \<open>error\<close> is its message. A call ends by returning, by a run-time panic, by
  \<open>os.Exit\<close>, or it waits for ever on a channel or on the network (\<open>Blocked\<close>: no
  other goroutine of the sequential model can wake it).
\<close>

type_synonym error = string

type_synonym byte = "8 word"

datatype 'a outcome = Return 'a | Panic string | Exit nat | Blocked

text \<open>What the process does to the outside world, in program order.\<close>

datatype arg = AInt int | AStr string

datatype event =
    Stdout "arg list"        \<comment> \<open>\<open>fmt.Println\<close>\<close>
  | StdoutBytes "8 word list" \<comment> \<open>a chunk echoed to \<open>os.Stdout\<close> under \<open>-vv\<close>\<close>
  | Stderr "arg list"        \<comment> \<open>\<open>fmt.Fprintf(os.Stderr, ...)\<close>, \<open>io.Copy(os.Stderr, ...)\<close>\<close>
  | UsageText                \<comment> \<open>\<open>flag.Usage()\<close>: the text of \<open>usage\<close> on standard error\<close>
  | Logged "arg list"        \<comment> \<open>\<open>log.Print\<close>, \<open>log.Println\<close>, \<open>log.Printf\<close>\<close>
  | GoWorker int             \<comment> \<open>\<open>go func(i int) { w.runWorker(i); wg.Done() }(i)\<close>\<close>
  | Sleep                    \<comment> \<open>\<open>time.Sleep(1 * time.Second)\<close>\<close>
  | NetDial string string    \<comment> \<open>\<open>net.Dial(network, address)\<close>\<close>
  | NextWriter nat           \<comment> \<open>\<open>ws.NextWriter(websocket.BinaryMessage)\<close> on connection \<open>id\<close>\<close>
  | WriteString nat string   \<comment> \<open>\<open>io.WriteString(ww, data)\<close> on connection \<open>id\<close>\<close>
  | CloseFrame nat           \<comment> \<open>\<open>s.WriteMessage(websocket.CloseMessage, ...)\<close> on connection \<open>id\<close>\<close>

fun is_NetDial :: "event \<Rightarrow> bool" where
  "is_NetDial (NetDial network address) = True"
| "is_NetDial e = False"

text \<open>
  Go's \<open>%\<close> truncates towards zero: the remainder has the sign of the dividend.
  The caller checks the divisor, since \<open>x % 0\<close> panics.
\<close>

definition go_rem :: "int \<Rightarrow> int \<Rightarrow> int" where
  "go_rem a b = sgn a * (\<bar>a\<bar> mod \<bar>b\<bar>)"

text \<open>\<open>strings.Split(s, sep)\<close> for a separator of one byte.\<close>

fun split_on :: "char \<Rightarrow> string \<Rightarrow> string list" where
  "split_on sep [] = [[]]"
| "split_on sep (c # cs) =
     (if c = sep then [] # split_on sep cs
      else (case split_on sep cs of
              [] \<Rightarrow> [[c]]
            | x # xs \<Rightarrow> (c # x) # xs))"

section \<open>counter\<close>

text \<open>
  \<open>type counter struct { N int }\<close>. Go's \<open>int\<close> is the 64-bit two's complement
  integer of the 64-bit targets; \<open>+=\<close> wraps around.
\<close>

record counter =
  c_N :: "64 word"

text \<open>\<open>len(p)\<close> as a Go \<open>int\<close>.\<close>

definition go_len :: "'a list \<Rightarrow> 64 word" where
  "go_len p = of_nat (length p)"

text \<open>
  \<open>func (c *counter) Write(p []byte) (n int, err error)\<close>: the updated counter, \<open>n\<close>
  and \<open>err\<close> (\<open>None\<close> is \<open>nil\<close>).
\<close>

definition Write :: "counter \<Rightarrow> byte list \<Rightarrow> counter \<times> 64 word \<times> error option" where
  "Write c p = (c\<lparr>c_N := c_N c + go_len p\<rparr>, go_len p, None)"

text \<open>A sequence of chunks written one after the other: the results of the writes, and the counter.\<close>

fun write_all :: "counter \<Rightarrow> byte list list \<Rightarrow> (64 word \<times> error option) list \<times> counter" where
  "write_all c [] = ([], c)"
| "write_all c (p # ps) =
     (case Write c p of
        (c', r) \<Rightarrow> (case write_all c' ps of (rs, c'') \<Rightarrow> (r # rs, c'')))"

section \<open>aoverride\<close>

text \<open>
  \<open>type aoverride struct { addrs []string; n int32; h string; seen []string }\<close>.
  The fields carry the receiver's name \<open>as\<close>.
\<close>

record aoverride =
  as_addrs :: "string list"
  as_n :: "32 word"
  as_h :: string
  as_seen :: "string list"

text \<open>A \<open>net.Conn\<close> that is not nil, with what \<open>RemoteAddr().String()\<close> gives.\<close>

datatype conn = Conn (RemoteAddr: string)

text \<open>
  The library is a parameter of the model: \<open>shp\<close> is \<open>net.SplitHostPort\<close> (an error, or
  host and port) and \<open>nd\<close> is \<open>net.Dial\<close> at the moment of the call (an error with a nil
  connection, or a connection with a nil error).
\<close>

type_synonym split_host_port = "string \<Rightarrow> error + (string \<times> string)"

type_synonym net_dial = "string \<Rightarrow> string \<Rightarrow> error + conn"

text \<open>
  \<open>func (as *aoverride) dial(ctx, network, address) (net.Conn, error)\<close>: the outcome
  (the pair returned, \<open>None\<close> for nil), the struct after the call and the events.
  In the branch of another host the connection is asked for its remote address before
  the error is looked at: on a nil connection that is a nil dereference.
  In the branch of the override host the index \<open>int(as.n) % len(as.addrs)\<close> panics on
  an empty pool (division by zero) and on a negative remainder (index out of range).
\<close>

definition dial ::
  "split_host_port \<Rightarrow> net_dial \<Rightarrow> aoverride \<Rightarrow> string \<Rightarrow> string \<Rightarrow>
     (conn option \<times> error option) outcome \<times> aoverride \<times> event list" where
  "dial shp nd as network address =
     (case shp address of
        Inl err \<Rightarrow>
          (Exit 1, as, [Stderr [AStr ''aoverride SHP error:'', AStr err, AStr [CHR 0x0A]]])
      | Inr (host, port) \<Rightarrow>
          if host \<noteq> as_h as then
            (case nd network address of
               Inl err \<Rightarrow>
                 (Panic ''invalid memory address or nil pointer dereference'', as,
                  [NetDial network address])
             | Inr c \<Rightarrow>
                 if RemoteAddr c \<notin> set (as_seen as) then
                   (Return (Some c, None),
                    as\<lparr>as_seen := as_seen as @ [RemoteAddr c]\<rparr>,
                    [NetDial network address,
                     Stderr [AStr ''NO aoverride dial('', AStr network, AStr '','', AStr address,
                             AStr '') for '', AStr (as_h as), AStr '' host='', AStr host],
                     Stderr [AStr ''!! dialed '', AStr (RemoteAddr c), AStr [CHR 0x0A]]])
                 else (Return (Some c, None), as, [NetDial network address]))
          else if length (as_addrs as) = 0 then
            (Panic ''integer divide by zero'', as, [])
          else
            (let idx = go_rem (sint (as_n as)) (int (length (as_addrs as))) in
             if idx < 0 \<or> int (length (as_addrs as)) \<le> idx then
               (Panic ''index out of range'', as, [])
             else
               (let a = as_addrs as ! nat idx @ '':'' @ port;
                    as' = as\<lparr>as_n := as_n as + 1\<rparr>
                in case nd network a of
                     Inl err \<Rightarrow>
                       (Return (None, Some err), as',
                        [NetDial network a,
                         Logged [AStr ''aoverride dial error dialing '', AStr network, AStr '' '',
                                 AStr a, AStr '':'', AStr err]])
                   | Inr c \<Rightarrow> (Return (Some c, None), as', [NetDial network a]))))"

text \<open>
  Calls of \<open>dial\<close> one after the other on the same struct, each with the \<open>net.Dial\<close> of
  its moment: the outcome and events of every call made, and the struct at the end.
  A panic or an exit ends the process, so no later call is made.
\<close>

fun dial_seq ::
  "split_host_port \<Rightarrow> aoverride \<Rightarrow> (net_dial \<times> string \<times> string) list \<Rightarrow>
     ((conn option \<times> error option) outcome \<times> event list) list \<times> aoverride" where
  "dial_seq shp as [] = ([], as)"
| "dial_seq shp as ((nd, network, address) # cs) =
     (case dial shp nd as network address of
        (Return r, as', ev) \<Rightarrow>
          (case dial_seq shp as' cs of (rs, as'') \<Rightarrow> ((Return r, ev) # rs, as''))
      | (oc, as', ev) \<Rightarrow> ([(oc, ev)], as'))"

section \<open>Channels\<close>

text \<open>
  A buffered channel: what is queued, the capacity given to \<open>make\<close>, and whether it is
  closed. A channel variable that was never made is nil: \<open>None\<close>.
\<close>

record 'a chan =
  chan_buf :: "'a list"
  chan_cap :: nat
  chan_closed :: bool

definition make_chan :: "nat \<Rightarrow> 'a chan" where
  "make_chan cp = \<lparr>chan_buf = [], chan_cap = cp, chan_closed = False\<rparr>"

text \<open>
  \<open>ch <- x\<close>: a nil channel and a full one block, a closed one panics.
\<close>

definition chan_send :: "'a chan option \<Rightarrow> 'a \<Rightarrow> 'a chan outcome" where
  "chan_send ch x =
     (case ch of
        None \<Rightarrow> Blocked
      | Some q \<Rightarrow>
          if chan_closed q then Panic ''send on closed channel''
          else if length (chan_buf q) < chan_cap q then Return (q\<lparr>chan_buf := chan_buf q @ [x]\<rparr>)
          else Blocked)"

text \<open>\<open>close(ch)\<close>: the panic message, or the closed channel.\<close>

definition chan_close :: "'a chan option \<Rightarrow> string + 'a chan" where
  "chan_close ch =
     (case ch of
        None \<Rightarrow> Inl ''close of nil channel''
      | Some q \<Rightarrow>
          if chan_closed q then Inl ''close of closed channel''
          else Inr (q\<lparr>chan_closed := True\<rparr>))"

text \<open>
  \<open>select { case <-ch: ...; default: }\<close>: the channel after a receive that was ready
  (a queued value, or the zero value of a closed channel), \<open>None\<close> for the default case.
\<close>

definition try_recv :: "'a chan option \<Rightarrow> 'a chan option" where
  "try_recv ch =
     (case ch of
        None \<Rightarrow> None
      | Some q \<Rightarrow>
          if chan_buf q \<noteq> [] then Some (q\<lparr>chan_buf := tl (chan_buf q)\<rparr>)
          else if chan_closed q then Some q
          else None)"

section \<open>Websocket connections\<close>

text \<open>
  What the library gives a worker. A connection is scripted: the error of
  \<open>NextWriter\<close> (if it fails), what \<open>NextReader\<close> and \<open>io.Copy\<close> give message after
  message, and the error of the close frame's \<open>WriteMessage\<close> (if it fails).
  A message is its type, the chunks \<open>io.Copy\<close> writes to its destination, and the error
  \<open>io.Copy\<close> ends with (if any). When the script is over the peer is silent.
\<close>

datatype read_event =
    ReadErr int error
  | Message int "byte list list" "error option"

record ws_conn =
  ws_id :: nat
  ws_nextWriter :: "error option"
  ws_reads :: "read_event list"
  ws_writeClose :: "error option"

record response =
  resp_StatusCode :: int
  resp_Status :: string
  resp_Header :: string
  resp_Body :: string

text \<open>
  \<open>w.dila.Dial(w.URL, w.header)\<close>: a connection, \<open>websocket.ErrBadHandshake\<close> with the
  response of the server, or another error.
\<close>

datatype dial_result = DialOk ws_conn | DialBadHandshake response | DialErr error

definition CloseMessage :: int where
  "CloseMessage = 8"

section \<open>Work\<close>

text \<open>
  \<open>type Work struct\<close>, the fields under the receiver's name \<open>w\<close>. The channel of
  counters carries pointers: \<open>w_heap\<close> maps the address of every counter allocated by a
  worker to its value, \<open>w_next\<close> is the next free address. The time stamps and the
  dialer's settings are left out; its \<open>NetDialContext\<close> hook is \<open>w_ao\<close>.
\<close>

record Work =
  w_N :: int
  w_C :: int
  w_CPS :: int
  w_Timeout :: int
  w_URL :: string
  w_resolve :: string
  w_SendData :: string
  w_verbose :: bool
  w_vv :: bool
  w_k :: bool
  w_sockets :: "ws_conn chan option"
  w_counters :: "nat chan option"
  w_ao :: "aoverride option"
  w_header :: "string \<rightharpoonup> string"
  w_stopCh :: "unit chan option"
  w_heap :: "nat \<Rightarrow> counter"
  w_next :: nat

subsection \<open>PrintReport\<close>

text \<open>
  \<open>for c := range w.counters\<close> ends only on a closed channel; on an open or nil one
  the report waits for ever.
\<close>

definition PrintReport :: "Work \<Rightarrow> unit outcome \<times> Work \<times> event list" where
  "PrintReport w =
     (case w_counters w of
        None \<Rightarrow> (Blocked, w, [])
      | Some q \<Rightarrow>
          (let total = foldl (\<lambda>t a. t + c_N (w_heap w a)) 0 (chan_buf q);
               w' = w\<lparr>w_counters := Some (q\<lparr>chan_buf := []\<rparr>)\<rparr>
           in if chan_closed q then
                (Return (), w',
                 [Stdout [AInt (sint total), AStr ''bytes read from'', AInt (w_C w),
                          AStr ''websockets'']])
              else (Blocked, w', [])))"

subsection \<open>Stop\<close>

text \<open>\<open>for i := 0; i < w.C; i++ { w.stopCh <- struct{}{} }\<close>, by the number of rounds left.\<close>

fun send_stops :: "nat \<Rightarrow> unit chan option \<Rightarrow> unit outcome \<times> unit chan option" where
  "send_stops 0 ch = (Return (), ch)"
| "send_stops (Suc k) ch =
     (case chan_send ch () of
        Return q \<Rightarrow> send_stops k (Some q)
      | Panic msg \<Rightarrow> (Panic msg, ch)
      | Exit e \<Rightarrow> (Exit e, ch)
      | Blocked \<Rightarrow> (Blocked, ch))"

text \<open>
  \<open>for s := range w.sockets\<close> on the closed channel: whether the loop reached the end
  of the queue, the connections left in the queue, and the events. A failed
  \<open>WriteMessage\<close> is logged and followed by \<open>return\<close>.
\<close>

fun close_loop :: "ws_conn list \<Rightarrow> bool \<times> ws_conn list \<times> event list" where
  "close_loop [] = (True, [], [])"
| "close_loop (s # rest) =
     (case ws_writeClose s of
        Some err \<Rightarrow>
          (False, rest, [CloseFrame (ws_id s), Logged [AStr ''write close:'', AStr err]])
      | None \<Rightarrow>
          (case close_loop rest of
             (fin, left, ev) \<Rightarrow> (fin, left, CloseFrame (ws_id s) # ev)))"

definition Stop :: "Work \<Rightarrow> unit outcome \<times> Work \<times> event list" where
  "Stop w =
     (let ev0 = (if w_verbose w then [Stdout [AStr ''stopping'']] else []) in
      case send_stops (nat (w_C w)) (w_stopCh w) of
        (Return u, st) \<Rightarrow>
          (case chan_close (w_sockets w) of
             Inl msg \<Rightarrow> (Panic msg, w\<lparr>w_stopCh := st\<rparr>, ev0)
           | Inr so \<Rightarrow>
               (case chan_close (w_counters w) of
                  Inl msg \<Rightarrow> (Panic msg, w\<lparr>w_stopCh := st, w_sockets := Some so\<rparr>, ev0)
                | Inr co \<Rightarrow>
                    (case close_loop (chan_buf so) of
                       (fin, left, ev) \<Rightarrow>
                         (Return (),
                          w\<lparr>w_stopCh := st, w_sockets := Some (so\<lparr>chan_buf := left\<rparr>),
                            w_counters := Some co\<rparr>,
                          ev0 @ ev @
                          (if fin \<and> w_verbose w then [Stdout [AStr ''stopped'']] else [])))))
      | (oc, st) \<Rightarrow> (oc, w\<lparr>w_stopCh := st\<rparr>, ev0))"

subsection \<open>runWorker\<close>

text \<open>
  Lines 250 to 256. A failed \<open>NextWriter\<close> is logged and its nil writer is then handed
  to \<open>io.WriteString\<close>, which calls \<open>Write\<close> on it.
\<close>

definition send_data :: "Work \<Rightarrow> ws_conn \<Rightarrow> unit outcome \<times> event list" where
  "send_data w ws =
     (if w_SendData w \<noteq> [] then
        (case ws_nextWriter ws of
           Some err \<Rightarrow>
             (Panic ''invalid memory address or nil pointer dereference'',
              [NextWriter (ws_id ws), Logged [AStr ''error writing to websocket: '', AStr err]])
         | None \<Rightarrow>
             (Return (), [NextWriter (ws_id ws), WriteString (ws_id ws) (w_SendData w)]))
      else (Return (), []))"

text \<open>
  \<open>io.Copy(out, r)\<close> with \<open>out\<close> the counter, behind \<open>io.MultiWriter(os.Stdout, c)\<close>
  under \<open>-vv\<close>: the counter, the number of bytes copied and the echo.
\<close>

definition io_Copy :: "bool \<Rightarrow> counter \<Rightarrow> byte list list \<Rightarrow> counter \<times> 64 word \<times> event list" where
  "io_Copy vv c chunks =
     (case write_all c chunks of
        (rs, c') \<Rightarrow>
          (c', sum_list (map fst rs),
           if vv then map StdoutBytes chunks else []))"

text \<open>
  The receive loop of lines 259 to 287, for worker \<open>i\<close> whose counter lives at address
  \<open>a\<close>, on what is left of the connection's script.
\<close>

fun recv_loop :: "Work \<Rightarrow> int \<Rightarrow> nat \<Rightarrow> read_event list \<Rightarrow> unit outcome \<times> Work \<times> event list" where
  "recv_loop w i a [] = (Blocked, w, [])"
| "recv_loop w i a (ReadErr mt err # rest) =
     (Return (), w,
      if w_verbose w
      then [Logged [AStr ''error reading from websocket '', AInt i, AStr '' type '', AInt mt]]
      else [])"
| "recv_loop w i a (Message mt chunks cerr # rest) =
     (if mt = CloseMessage then (Return (), w, [])
      else
        (case io_Copy (w_vv w) (w_heap w a) chunks of
           (c', n, ev) \<Rightarrow>
             (case cerr of
                Some err \<Rightarrow>
                  (Return (), w\<lparr>w_heap := (w_heap w)(a := c')\<rparr>,
                   ev @ [Logged [AStr ''error reading from websocket:'', AStr err]])
              | None \<Rightarrow>
                  (case try_recv (w_stopCh w) of
                     Some st \<Rightarrow>
                       (Return (), w\<lparr>w_heap := (w_heap w)(a := c'), w_stopCh := Some st\<rparr>,
                        ev @ (if w_verbose w
                              then [Logged [AStr ''read '', AInt (sint n),
                                            AStr '' bytes from websocket '', AInt i,
                                            AStr '' type '', AInt mt]]
                              else []))
                   | None \<Rightarrow>
                       (case recv_loop (w\<lparr>w_heap := (w_heap w)(a := c')\<rparr>) i a rest of
                          (oc, w', ev') \<Rightarrow>
                            (oc, w',
                             ev @ (if w_verbose w
                                   then [Logged [AStr ''read '', AInt (sint n),
                                                 AStr '' bytes from websocket '', AInt i,
                                                 AStr '' type '', AInt mt]]
                                   else []) @ ev'))))))"

text \<open>
  Lines 238 to 288 of \<open>runWorker\<close>: what worker \<open>i\<close> does with the result of
  \<open>w.dila.Dial\<close>.
\<close>

definition worker_after_dial ::
  "Work \<Rightarrow> int \<Rightarrow> dial_result \<Rightarrow> unit outcome \<times> Work \<times> event list" where
  "worker_after_dial w i dr =
     (case dr of
        DialErr err \<Rightarrow>
          (Return (), w,
           [Logged [AStr ''fatal error dialing websocket '', AInt i, AStr '':'', AStr err]])
      | DialBadHandshake resp \<Rightarrow>
          (Return (), w,
           [Logged [AStr ''fatal error dialing websocket '', AInt i, AStr '':'',
                    AStr ''websocket: bad handshake''],
            Logged [AInt (resp_StatusCode resp), AStr (resp_Status resp),
                    AStr (resp_Header resp)],
            Stderr [AStr (resp_Body resp)]])
      | DialOk ws \<Rightarrow>
          (let ev0 = (if w_verbose w
                      then [Logged [AStr ''websocket '', AInt i, AStr '' connected'']]
                      else [])
           in case chan_send (w_sockets w) ws of
                Panic msg \<Rightarrow> (Panic msg, w, ev0)
              | Exit e \<Rightarrow> (Exit e, w, ev0)
              | Blocked \<Rightarrow> (Blocked, w, ev0)
              | Return so \<Rightarrow>
                  (case send_data w ws of
                     (Return u, ev1) \<Rightarrow>
                       (let a = w_next w;
                            w1 = w\<lparr>w_sockets := Some so,
                                   w_heap := (w_heap w)(a := \<lparr>c_N = 0\<rparr>),
                                   w_next := Suc a\<rparr>
                        in case chan_send (w_counters w1) a of
                             Panic msg \<Rightarrow> (Panic msg, w1, ev0 @ ev1)
                           | Exit e \<Rightarrow> (Exit e, w1, ev0 @ ev1)
                           | Blocked \<Rightarrow> (Blocked, w1, ev0 @ ev1)
                           | Return co \<Rightarrow>
                               (case recv_loop (w1\<lparr>w_counters := Some co\<rparr>) i a (ws_reads ws) of
                                  (oc, w2, ev2) \<Rightarrow> (oc, w2, ev0 @ ev1 @ ev2)))
                   | (oc, ev1) \<Rightarrow> (oc, w\<lparr>w_sockets := Some so\<rparr>, ev0 @ ev1))))"

text \<open>
  The library around a worker's dial: \<open>e_hostport\<close> is the \<open>host:port\<close> the websocket
  dialer reads off the URL (or its error for a URL it refuses), \<open>e_shp\<close> is
  \<open>net.SplitHostPort\<close>, \<open>e_nd i\<close> is \<open>net.Dial\<close> at the moment worker \<open>i\<close> dials, and
  \<open>e_dl i\<close> is what \<open>Dial\<close> returns to worker \<open>i\<close> when the dialer opens the network
  connection by itself, or goes on with a connection that its hook has opened.
\<close>

record env =
  e_hostport :: "string \<Rightarrow> error + string"
  e_shp :: split_host_port
  e_nd :: "int \<Rightarrow> net_dial"
  e_dl :: "int \<Rightarrow> dial_result"

text \<open>
  Line 237, \<open>w.dila.Dial(w.URL, w.header)\<close>. When \<open>Start\<close> has set
  \<open>w.dila.NetDialContext = w.ao.dial\<close> (line 211), the dialer opens its network
  connection by calling \<open>w.ao.dial(ctx, "tcp", hostPort)\<close>, inside the worker's
  goroutine: a panic or an exit of the hook is the worker's, an error it returns is the
  error of \<open>Dial\<close>, and the struct \<open>w.ao\<close> points to is updated. (The hook
  always returns a connection or an error; with neither the dialer would use a nil
  connection.)
\<close>

definition ws_Dial :: "env \<Rightarrow> Work \<Rightarrow> int \<Rightarrow> dial_result outcome \<times> Work \<times> event list" where
  "ws_Dial en w i =
     (case w_ao w of
        None \<Rightarrow> (Return (e_dl en i), w, [])
      | Some as \<Rightarrow>
          (case e_hostport en (w_URL w) of
             Inl err \<Rightarrow> (Return (DialErr err), w, [])
           | Inr hostPort \<Rightarrow>
               (case dial (e_shp en) (e_nd en i) as ''tcp'' hostPort of
                  (Return (c, Some err), as', ev) \<Rightarrow>
                    (Return (DialErr err), w\<lparr>w_ao := Some as'\<rparr>, ev)
                | (Return (Some c, None), as', ev) \<Rightarrow>
                    (Return (e_dl en i), w\<lparr>w_ao := Some as'\<rparr>, ev)
                | (Return (None, None), as', ev) \<Rightarrow>
                    (Panic ''invalid memory address or nil pointer dereference'',
                     w\<lparr>w_ao := Some as'\<rparr>, ev)
                | (Panic msg, as', ev) \<Rightarrow> (Panic msg, w\<lparr>w_ao := Some as'\<rparr>, ev)
                | (Exit e, as', ev) \<Rightarrow> (Exit e, w\<lparr>w_ao := Some as'\<rparr>, ev)
                | (Blocked, as', ev) \<Rightarrow> (Blocked, w\<lparr>w_ao := Some as'\<rparr>, ev))))"

text \<open>\<open>func (w *Work) runWorker(i int)\<close>.\<close>

definition runWorker :: "env \<Rightarrow> Work \<Rightarrow> int \<Rightarrow> unit outcome \<times> Work \<times> event list" where
  "runWorker en w i =
     (case ws_Dial en w i of
        (Return dr, w0, dev) \<Rightarrow>
          (case worker_after_dial w0 i dr of (oc, w', ev) \<Rightarrow> (oc, w', dev @ ev))
      | (Panic msg, w0, dev) \<Rightarrow> (Panic msg, w0, dev)
      | (Exit e, w0, dev) \<Rightarrow> (Exit e, w0, dev)
      | (Blocked, w0, dev) \<Rightarrow> (Blocked, w0, dev))"

subsection \<open>Start\<close>

text \<open>
  Lines 206 to 210: \<open>r := strings.Split(w.resolve, ":")\<close>, \<open>host := r[0]\<close>,
  \<open>addrs := r[2:]\<close>. The slice expression panics when \<open>r\<close> has fewer than two elements.
\<close>

definition parse_resolve :: "string \<Rightarrow> aoverride outcome" where
  "parse_resolve s =
     (let r = split_on CHR '':'' s in
      case r of
        [] \<Rightarrow> Panic ''index out of range [0] with length 0''
      | host # rest \<Rightarrow>
          if length r < 2 then Panic ''slice bounds out of range [2:1]''
          else Return \<lparr>as_addrs = drop 2 r, as_n = 0, as_h = host, as_seen = []\<rparr>)"

text \<open>
  One round of the loop of lines 216 to 228, for the launching goroutine: the worker is
  started, then \<open>i > 0 && i%w.CPS == 0\<close> decides on the pause.
\<close>

definition launch_step :: "Work \<Rightarrow> int \<Rightarrow> unit outcome \<times> event list" where
  "launch_step w i =
     (if i > 0 then
        (if w_CPS w = 0 then (Panic ''integer divide by zero'', [GoWorker i])
         else if go_rem i (w_CPS w) = 0 then
           (Return (),
            [GoWorker i]
            @ (if w_verbose w then [Stdout [AInt i, AStr ''workers started'']] else [])
            @ [Sleep])
         else (Return (), [GoWorker i]))
      else (Return (), [GoWorker i]))"

function launch_loop :: "Work \<Rightarrow> int \<Rightarrow> unit outcome \<times> event list" where
  "launch_loop w i =
     (if i < w_C w then
        (case launch_step w i of
           (Return u, ev) \<Rightarrow>
             (case launch_loop w (i + 1) of (oc, ev') \<Rightarrow> (oc, ev @ ev'))
         | (oc, ev) \<Rightarrow> (oc, ev))
      else (Return (), []))"
  by pat_completeness auto
termination
  by (relation "measure (\<lambda>(w, i). nat (w_C w - i))") auto

declare launch_loop.simps [simp del]

text \<open>The workers started, in the order of their \<open>go\<close> statements.\<close>

fun launched :: "event list \<Rightarrow> int list" where
  "launched [] = []"
| "launched (GoWorker i # ev) = i # launched ev"
| "launched (e # ev) = launched ev"

text \<open>
  One schedule of the goroutines: every worker runs to its end, in the order of the
  launches. A panic or an exit in a worker ends the process; a worker that waits for
  ever keeps \<open>wg.Wait()\<close> waiting.
\<close>

fun run_workers ::
  "env \<Rightarrow> Work \<Rightarrow> int list \<Rightarrow> unit outcome \<times> Work \<times> event list" where
  "run_workers en w [] = (Return (), w, [])"
| "run_workers en w (i # rest) =
     (case runWorker en w i of
        (Return u, w', ev) \<Rightarrow>
          (case run_workers en w' rest of (oc, w'', ev') \<Rightarrow> (oc, w'', ev @ ev'))
      | (oc, w', ev) \<Rightarrow> (oc, w', ev))"

text \<open>Lines 205 to 212.\<close>

definition set_resolve :: "Work \<Rightarrow> Work outcome" where
  "set_resolve w =
     (if w_resolve w \<noteq> [] then
        (case parse_resolve (w_resolve w) of
           Return ao \<Rightarrow> Return (w\<lparr>w_ao := Some ao\<rparr>)
         | Panic msg \<Rightarrow> Panic msg
         | Exit e \<Rightarrow> Exit e
         | Blocked \<Rightarrow> Blocked)
      else Return w)"

text \<open>
  \<open>func (w *Work) Start()\<close>: the outcome, the struct, the events of the launching
  goroutine and those of the workers. \<open>make\<close> panics on a negative capacity.
\<close>

definition Start ::
  "env \<Rightarrow> Work \<Rightarrow> unit outcome \<times> Work \<times> event list \<times> event list" where
  "Start en w =
     (if w_C w < 0 then (Panic ''makechan: size out of range'', w, [], [])
      else
        (let w1 = w\<lparr>w_sockets := Some (make_chan (nat (w_C w))),
                    w_counters := Some (make_chan (nat (w_C w))),
                    w_stopCh := Some (make_chan (nat (w_C w)))\<rparr>
         in case set_resolve w1 of
              Panic msg \<Rightarrow> (Panic msg, w1, [], [])
            | Exit e \<Rightarrow> (Exit e, w1, [], [])
            | Blocked \<Rightarrow> (Blocked, w1, [], [])
            | Return w2 \<Rightarrow>
                (case launch_loop w2 0 of
                   (Return u, ev) \<Rightarrow>
                     (case run_workers en w2 (launched ev) of
                        (oc, w3, wev) \<Rightarrow>
                          (oc, w3,
                           ev @ (if w_verbose w2
                                 then [Stdout [AInt (w_C w2), AStr ''workers started'']]
                                 else []),
                           wev))
                 | (oc, ev) \<Rightarrow> (oc, w2, ev, []))))"

section \<open>main\<close>

text \<open>
  What \<open>flag.Parse\<close> leaves in the variables of \<open>main\<close>: \<open>f_hs\<close> are the \<open>-H\<close>
  arguments, \<open>f_args\<close> the positional ones. The duration \<open>-z\<close> is left out.
\<close>

record flags =
  f_body :: string
  f_bodyFile :: string
  f_hostHeader :: string
  f_userAgent :: string
  f_resolve :: string
  f_conc :: int
  f_t :: int
  f_q :: int
  f_h2 :: bool
  f_v :: bool
  f_vv :: bool
  f_k :: bool
  f_hs :: "string list"
  f_args :: "string list"

text \<open>\<open>func usageAndExit(msg string)\<close>: what it prints before \<open>os.Exit(1)\<close>.\<close>

definition usageAndExit :: "string \<Rightarrow> event list" where
  "usageAndExit msg =
     (if msg \<noteq> [] then [Stderr [AStr msg], Stderr [AStr [CHR 0x0A, CHR 0x0A]]] else [])
     @ [UsageText, Stderr [AStr [CHR 0x0A]]]"

text \<open>
  \<open>func parseInputWithRegexp(input, regx string)\<close>; \<open>re\<close> is
  \<open>regexp.MustCompile(regx).FindStringSubmatch\<close>.
\<close>

definition parseInputWithRegexp :: "(string \<Rightarrow> string list) \<Rightarrow> string \<Rightarrow> error + string list" where
  "parseInputWithRegexp re input =
     (let ms = re input in
      if length ms < 1
      then Inl (''could not parse the provided input; input = '' @ input)
      else Inr ms)"

text \<open>
  The loop of lines 105 to 111 over the \<open>-H\<close> arguments; \<open>header.Set\<close> is the update
  of a map (the canonical spelling of the name is left to the library).
\<close>

fun parse_headers ::
  "(string \<Rightarrow> string list) \<Rightarrow> string list \<Rightarrow> (string \<rightharpoonup> string) \<Rightarrow>
     (string \<rightharpoonup> string) outcome \<times> event list" where
  "parse_headers re [] header = (Return header, [])"
| "parse_headers re (h # hs) header =
     (case parseInputWithRegexp re h of
        Inl err \<Rightarrow> (Exit 1, usageAndExit err)
      | Inr ms \<Rightarrow>
          if length ms < 3 then (Panic ''index out of range'', [])
          else parse_headers re hs (header(ms ! 1 \<mapsto> ms ! 2)))"

text \<open>
  \<open>main\<close> up to the \<open>Work\<close> literal of lines 113 to 123. The literal names nine fields;
  the others, \<open>SendData\<close> among them, keep their zero values.
\<close>

definition main_work :: "(string \<Rightarrow> string list) \<Rightarrow> flags \<Rightarrow> Work outcome \<times> event list" where
  "main_work re f =
     (if length (f_args f) < 1 then (Exit 1, usageAndExit [])
      else
        (let q = (if f_q f = 0 then f_conc f else f_q f) in
         case parse_headers re (f_hs f) Map.empty of
           (Return header, ev) \<Rightarrow>
             (Return \<lparr>w_N = 0, w_C = f_conc f, w_CPS = q, w_Timeout = f_t f,
                      w_URL = hd (f_args f), w_resolve = f_resolve f, w_SendData = [],
                      w_verbose = f_v f, w_vv = f_vv f, w_k = f_k f,
                      w_sockets = None, w_counters = None, w_ao = None,
                      w_header = header, w_stopCh = None,
                      w_heap = (\<lambda>a. \<lparr>c_N = 0\<rparr>), w_next = 0\<rparr>, ev)
         | (Panic msg, ev) \<Rightarrow> (Panic msg, ev)
         | (Exit e, ev) \<Rightarrow> (Exit e, ev)
         | (Blocked, ev) \<Rightarrow> (Blocked, ev)))"

text \<open>
  The run in the schedule where the stop path (the timer or the interrupt) runs once,
  after every worker has come to its end: \<open>Start\<close>, \<open>Stop\<close>, \<open>PrintReport\<close>, and
  \<open>main\<close> returns.
\<close>

definition run :: "env \<Rightarrow> Work \<Rightarrow> unit outcome \<times> Work \<times> event list" where
  "run en w =
     (case Start en w of
        (Return u, w1, lev, wev) \<Rightarrow>
          (case Stop w1 of
             (Return u', w2, sev) \<Rightarrow>
               (case PrintReport w2 of (oc, w3, pev) \<Rightarrow> (oc, w3, lev @ wev @ sev @ pev))
           | (oc, w2, sev) \<Rightarrow> (oc, w2, lev @ wev @ sev))
      | (oc, w1, lev, wev) \<Rightarrow> (oc, w1, lev @ wev))"

definition main ::
  "(string \<Rightarrow> string list) \<Rightarrow> env \<Rightarrow> flags \<Rightarrow> unit outcome \<times> event list" where
  "main re en f =
     (case main_work re f of
        (Return w, ev) \<Rightarrow> (case run en w of (oc, w', ev') \<Rightarrow> (oc, ev @ ev'))
      | (Panic msg, ev) \<Rightarrow> (Panic msg, ev)
      | (Exit e, ev) \<Rightarrow> (Exit e, ev)
      | (Blocked, ev) \<Rightarrow> (Blocked, ev))"


section \<open>The round robin as the specification words it\<close>

text \<open>
  The address has the override host, and its port: read off \<open>net.SplitHostPort\<close>.
\<close>

definition matches :: "split_host_port \<Rightarrow> aoverride \<Rightarrow> string \<Rightarrow> bool" where
  "matches shp as address =
     (case shp address of Inl err \<Rightarrow> False | Inr (host, port) \<Rightarrow> host = as_h as)"

definition port_of :: "split_host_port \<Rightarrow> string \<Rightarrow> string" where
  "port_of shp address = (case shp address of Inl err \<Rightarrow> [] | Inr (host, port) \<Rightarrow> port)"

text \<open>
  What the specification promises of the \<open>m\<close>-th call (counted from 1) for the override
  host: it selects \<open>pool[(m-1) mod K]\<close>, dials \<open>selectedAddress:port\<close> and returns that
  connection, or the dial error after logging it.
\<close>

definition round_robin_call ::
  "string list \<Rightarrow> nat \<Rightarrow> net_dial \<Rightarrow> string \<Rightarrow> string \<Rightarrow>
     (conn option \<times> error option) outcome \<times> event list" where
  "round_robin_call pool m nd network port =
     (let a = pool ! ((m - 1) mod length pool) @ '':'' @ port
      in case nd network a of
           Inl err \<Rightarrow>
             (Return (None, Some err),
              [NetDial network a,
               Logged [AStr ''aoverride dial error dialing '', AStr network, AStr '' '',
                       AStr a, AStr '':'', AStr err]])
         | Inr c \<Rightarrow> (Return (Some c, None), [NetDial network a]))"

text \<open>
  The pauses of the launching goroutine that come before the launch of worker \<open>j\<close>
  (the launch number \<open>j + 1\<close>).
\<close>

fun pauses_before :: "int \<Rightarrow> event list \<Rightarrow> nat" where
  "pauses_before j [] = 0"
| "pauses_before j (e # ev) =
     (if e = GoWorker j then 0
      else (if e = Sleep then 1 else 0) + pauses_before j ev)"

section \<open>Sample inputs\<close>

text \<open>
  A stand-in for \<open>net.SplitHostPort\<close> on addresses without brackets: exactly one colon,
  between host and port.
\<close>

definition shp0 :: split_host_port where
  "shp0 address =
     (case split_on CHR '':'' address of
        [x] \<Rightarrow> Inl ''missing port in address''
      | [host, port] \<Rightarrow> Inr (host, port)
      | xs \<Rightarrow> Inl ''too many colons in address'')"

text \<open>A network where every dial succeeds, and one where every dial is refused.\<close>

definition nd_ok :: net_dial where
  "nd_ok network address = Inr (Conn address)"

definition nd_refused :: net_dial where
  "nd_refused network address = Inl ''connection refused''"

definition pool2 :: aoverride where
  "pool2 = \<lparr>as_addrs = [''10.0.0.1'', ''10.0.0.2''], as_n = 0,
            as_h = ''example.com'', as_seen = []\<rparr>"

definition pool3 :: aoverride where
  "pool3 = \<lparr>as_addrs = [''10.0.0.1'', ''10.0.0.2'', ''10.0.0.3''], as_n = 0,
            as_h = ''example.com'', as_seen = []\<rparr>"

definition calls4 :: "(net_dial \<times> string \<times> string) list" where
  "calls4 = replicate 4 (nd_ok, ''tcp'', ''example.com:443'')"

text \<open>
  A command line without \<open>-H\<close> arguments (so the regular expression is never asked):
  the defaults of the flags and one URL.
\<close>

definition re_none :: "string \<Rightarrow> string list" where
  "re_none input = []"

definition flags0 :: flags where
  "flags0 = \<lparr>f_body = [], f_bodyFile = [], f_hostHeader = [], f_userAgent = [],
             f_resolve = [], f_conc = 50, f_t = 20, f_q = 0, f_h2 = False, f_v = False,
             f_vv = False, f_k = False, f_hs = [], f_args = [''ws://example.com:443/'']\<rparr>"

text \<open>A target that refuses every connection.\<close>

definition dl_refused :: "int \<Rightarrow> dial_result" where
  "dl_refused i = DialErr ''dial tcp: connection refused''"

text \<open>
  A target that accepts, sends one binary message of 100 bytes and hangs up. For
  \<open>dl_broken\<close> the close frame to the first connection fails.
\<close>

definition ws_script :: "nat \<Rightarrow> error option \<Rightarrow> ws_conn" where
  "ws_script n close_err =
     \<lparr>ws_id = n, ws_nextWriter = None,
      ws_reads = [Message 2 [replicate 100 0] None, ReadErr (- 1) ''unexpected EOF''],
      ws_writeClose = close_err\<rparr>"

definition dl_ok :: "int \<Rightarrow> dial_result" where
  "dl_ok i = DialOk (ws_script (nat i) None)"

definition dl_broken :: "int \<Rightarrow> dial_result" where
  "dl_broken i = DialOk (ws_script (nat i) (if i = 0 then Some ''broken pipe'' else None))"

text \<open>
  A stand-in for the dialer's reading of a URL of the form \<open>ws://host:port/path\<close>, and
  the three targets as environments of a run.
\<close>

definition hostport0 :: "string \<Rightarrow> error + string" where
  "hostport0 url =
     (if take 5 url = ''ws://'' then Inr (takeWhile (\<lambda>c. c \<noteq> CHR ''/'') (drop 5 url))
      else Inl ''malformed ws or wss URL'')"

definition env_refused :: env where
  "env_refused = \<lparr>e_hostport = hostport0, e_shp = shp0, e_nd = (\<lambda>i. nd_refused),
                   e_dl = dl_refused\<rparr>"

definition env_ok :: env where
  "env_ok = \<lparr>e_hostport = hostport0, e_shp = shp0, e_nd = (\<lambda>i. nd_ok), e_dl = dl_ok\<rparr>"

definition env_broken :: env where
  "env_broken = \<lparr>e_hostport = hostport0, e_shp = shp0, e_nd = (\<lambda>i. nd_ok),
                  e_dl = dl_broken\<rparr>"

section \<open>Machine arithmetic\<close>

lemma sint64_small: "n < 2 ^ 63 \<Longrightarrow> sint (of_nat n :: 64 word) = int n"
  by (simp add: signed_of_nat signed_take_bit_int_eq_self)

lemma sint32_small: "n < 2 ^ 31 \<Longrightarrow> sint (of_nat n :: 32 word) = int n"
  by (simp add: signed_of_nat signed_take_bit_int_eq_self)

lemma go_rem_nonneg: "0 \<le> a \<Longrightarrow> 0 < b \<Longrightarrow> go_rem a b = a mod b"
  by (cases "a = 0") (auto simp: go_rem_def)

section \<open>counter.Write\<close>

lemma write_all_results:
  "fst (write_all c ps) = map (\<lambda>p. (go_len p, None)) ps"
  by (induction ps arbitrary: c) (simp_all add: Write_def split_beta)

lemma write_all_N:
  "c_N (snd (write_all c ps)) = c_N c + of_nat (sum_list (map length ps))"
  by (induction ps arbitrary: c) (simp_all add: Write_def go_len_def split_beta add.assoc)

lemma length_le_sum_list:
  "p \<in> set ps \<Longrightarrow> length p \<le> sum_list (map length ps)"
  by (induction ps) auto

text \<open>
  C9, as the code has it. For every sequence of chunks written to a fresh counter whose
  lengths sum to less than \<open>2^63\<close>: every write returns the length of its chunk and a nil
  error, and the total \<open>N\<close> is the sum of the lengths. (Every write returns \<open>len(p)\<close> and
  nil whatever the total is; beyond \<open>2^63 - 1\<close> the total wraps around.)
\<close>

theorem counter_write_total:
  assumes "sum_list (map length ps) < 2 ^ 63"
  shows "map (\<lambda>r. (sint (fst r), snd r)) (fst (write_all \<lparr>c_N = 0\<rparr> ps))
           = map (\<lambda>p. (int (length p), None)) ps \<and>
         sint (c_N (snd (write_all \<lparr>c_N = 0\<rparr> ps))) = int (sum_list (map length ps))"
proof -
  have "sint (go_len p) = int (length p)" if "p \<in> set ps" for p
  proof -
    have "length p < 2 ^ 63"
      using length_le_sum_list [OF that] assms by simp
    then show ?thesis
      by (simp add: go_len_def sint64_small)
  qed
  then have "map (\<lambda>r. (sint (fst r), snd r)) (fst (write_all \<lparr>c_N = 0\<rparr> ps))
           = map (\<lambda>p. (int (length p), None)) ps"
    by (simp add: write_all_results)
  moreover have "sint (c_N (snd (write_all \<lparr>c_N = 0\<rparr> ps))) = int (sum_list (map length ps))"
    using assms by (simp add: write_all_N sint64_small)
  ultimately show ?thesis by simp
qed

text \<open>The chunks of sizes 5, 3 and 12 of the specification: three writes without error, total 20.\<close>

theorem counter_write_total_witness:
  "sum_list (map length [replicate 5 (0::byte), replicate 3 0, replicate 12 0]) < 2 ^ 63 \<and>
   map (\<lambda>r. (sint (fst r), snd r))
     (fst (write_all \<lparr>c_N = 0\<rparr> [replicate 5 0, replicate 3 0, replicate 12 0]))
     = [(5, None), (3, None), (12, None)] \<and>
   sint (c_N (snd (write_all \<lparr>c_N = 0\<rparr> [replicate 5 0, replicate 3 0, replicate 12 0]))) = 20"
proof -
  have h: "sum_list (map length [replicate 5 (0::byte), replicate 3 0, replicate 12 0]) < 2 ^ 63"
    by simp
  show ?thesis
    using h counter_write_total [OF h] by simp
qed

text \<open>
  C9 as stated fails once the total passes \<open>2^63 - 1\<close>: after \<open>2^33\<close> chunks of \<open>2^30\<close>
  bytes the counter holds \<open>-2^63\<close>, and the lengths sum to \<open>2^63\<close>.
\<close>

theorem counter_write_total_counterexample:
  "sint (c_N (snd (write_all \<lparr>c_N = 0\<rparr> (replicate 8589934592 (replicate 1073741824 0)))))
     = - 9223372036854775808 \<and>
   int (sum_list (map length (replicate 8589934592 (replicate 1073741824 (0::byte)))))
     = 9223372036854775808"
  by (simp add: write_all_N sum_list_replicate)

section \<open>aoverride.dial: the override host\<close>

lemma matches_as_n [simp]:
  "matches shp (as\<lparr>as_n := x\<rparr>) address = matches shp as address"
  by (simp add: matches_def split: sum.splits)

lemma dial_match:
  assumes "matches shp as address" and "as_addrs as \<noteq> []"
    and "as_n as = of_nat j" and "j < 2 ^ 31"
  shows "dial shp nd as network address =
           (fst (round_robin_call (as_addrs as) (Suc j) nd network (port_of shp address)),
            as\<lparr>as_n := of_nat (Suc j)\<rparr>,
            snd (round_robin_call (as_addrs as) (Suc j) nd network (port_of shp address)))"
proof -
  obtain host port where sp: "shp address = Inr (host, port)" and h: "host = as_h as"
    using assms(1) by (auto simp: matches_def split: sum.splits)
  have len: "0 < int (length (as_addrs as))"
    using assms(2) by simp
  have idx: "go_rem (sint (as_n as)) (int (length (as_addrs as)))
               = int (j mod length (as_addrs as))"
    using assms(3,4) len by (simp add: sint32_small go_rem_nonneg zmod_int)
  have lt: "j mod length (as_addrs as) < length (as_addrs as)"
    using assms(2) by simp
  have upd: "as\<lparr>as_n := as_n as + 1\<rparr> = as\<lparr>as_n := of_nat (Suc j)\<rparr>"
    using assms(3) by simp
  show ?thesis
    using sp h assms(2) lt
    by (simp add: dial_def idx upd round_robin_call_def port_of_def Let_def
          linorder_not_le [symmetric] del: of_nat_Suc split: sum.splits)
qed

text \<open>
  The calls for the override host, from an index \<open>j\<close> that has not wrapped, followed by
  any further calls.
\<close>

lemma dial_seq_prefix:
  assumes "\<forall>c \<in> set calls. matches shp as (snd (snd c))" and "as_addrs as \<noteq> []"
    and "as_n as = of_nat j" and "j + length calls \<le> 2 ^ 31"
  shows "dial_seq shp as (calls @ rest) =
           (map (\<lambda>(i, nd, network, address).
                   round_robin_call (as_addrs as) (Suc i) nd network (port_of shp address))
                (zip [j ..< j + length calls] calls)
              @ fst (dial_seq shp (as\<lparr>as_n := of_nat (j + length calls)\<rparr>) rest),
            snd (dial_seq shp (as\<lparr>as_n := of_nat (j + length calls)\<rparr>) rest))"
  using assms
proof (induction calls arbitrary: as j)
  case Nil
  have "as\<lparr>as_n := of_nat j\<rparr> = as"
    using Nil.prems(3) by (cases as) simp
  then show ?case by simp
next
  case (Cons c cs)
  obtain nd network address where c: "c = (nd, network, address)"
    by (cases c) auto
  let ?as' = "as\<lparr>as_n := of_nat (Suc j)\<rparr>"
  have j: "j < 2 ^ 31" using Cons.prems(4) by simp
  have m: "matches shp as address" using Cons.prems(1) c by simp
  have step: "dial shp nd as network address =
           (fst (round_robin_call (as_addrs as) (Suc j) nd network (port_of shp address)),
            ?as',
            snd (round_robin_call (as_addrs as) (Suc j) nd network (port_of shp address)))"
    by (rule dial_match [OF m Cons.prems(2) Cons.prems(3) j])
  obtain r ev where rr:
    "round_robin_call (as_addrs as) (Suc j) nd network (port_of shp address) = (Return r, ev)"
    by (cases "nd network (as_addrs as ! ((Suc j - 1) mod length (as_addrs as))
                 @ '':'' @ port_of shp address)")
       (simp_all add: round_robin_call_def Let_def)
  have step': "dial shp nd as network address = (Return r, ?as', ev)"
    using step rr by simp
  have ms: "\<forall>c \<in> set cs. matches shp ?as' (snd (snd c))"
    using Cons.prems(1) by simp
  have IH: "dial_seq shp ?as' (cs @ rest) =
           (map (\<lambda>(i, nd, network, address).
                   round_robin_call (as_addrs ?as') (Suc i) nd network (port_of shp address))
                (zip [Suc j ..< Suc j + length cs] cs)
              @ fst (dial_seq shp (?as'\<lparr>as_n := of_nat (Suc j + length cs)\<rparr>) rest),
            snd (dial_seq shp (?as'\<lparr>as_n := of_nat (Suc j + length cs)\<rparr>) rest))"
    using Cons.prems(2,4) by (intro Cons.IH [OF ms]) simp_all
  have "[j ..< Suc (j + length cs)] = j # [Suc j ..< Suc (j + length cs)]"
    by (rule upt_conv_Cons) simp
  then have upt: "[j ..< j + length (c # cs)] = j # [Suc j ..< Suc j + length cs]"
    by simp
  have unfold: "dial_seq shp as ((c # cs) @ rest) =
      ((Return r, ev) # fst (dial_seq shp ?as' (cs @ rest)), snd (dial_seq shp ?as' (cs @ rest)))"
    by (simp add: c step' split_beta)
  show ?case
    unfolding unfold upt IH
    by (simp add: c rr)
qed


text \<open>
  C1, as the code has it. For every pool of size \<open>K \<ge> 1\<close>, from the selection index 0,
  and every sequence of at most \<open>2^31\<close> calls of \<open>dial\<close> with an address of the override
  host: every call returns, the \<open>m\<close>-th call (counted from 1) selects
  \<open>pool[(m-1) mod K]\<close>, dials \<open>selectedAddress:port\<close> and returns that connection or the
  dial error, and the calls leave the selection index at their number (as the \<open>int32\<close>
  the code reads, for fewer than \<open>2^31\<close> calls).
\<close>

theorem aoverride_dial_round_robin:
  assumes "as_n as = 0" and "as_addrs as \<noteq> []"
    and "\<forall>c \<in> set calls. matches shp as (snd (snd c))"
    and "length calls \<le> 2 ^ 31"
  shows "length (fst (dial_seq shp as calls)) = length calls \<and>
         (\<forall>m. 1 \<le> m \<and> m \<le> length calls \<longrightarrow>
            fst (dial_seq shp as calls) ! (m - 1) =
              (case calls ! (m - 1) of (nd, network, address) \<Rightarrow>
                 round_robin_call (as_addrs as) m nd network (port_of shp address))) \<and>
         snd (dial_seq shp as calls) = as\<lparr>as_n := of_nat (length calls)\<rparr> \<and>
         (length calls < 2 ^ 31 \<longrightarrow>
            sint (as_n (snd (dial_seq shp as calls))) = int (length calls))"
proof -
  have n0: "as_n as = of_nat 0"
    using assms(1) by simp
  have le: "0 + length calls \<le> 2 ^ 31"
    using assms(4) by simp
  have eq: "dial_seq shp as calls =
           (map (\<lambda>(i, nd, network, address).
                   round_robin_call (as_addrs as) (Suc i) nd network (port_of shp address))
                (zip [0 ..< length calls] calls),
            as\<lparr>as_n := of_nat (length calls)\<rparr>)"
    using dial_seq_prefix [OF assms(3) assms(2) n0 le, of "[]"] by simp
  have nth: "fst (dial_seq shp as calls) ! (m - 1) =
              (case calls ! (m - 1) of (nd, network, address) \<Rightarrow>
                 round_robin_call (as_addrs as) m nd network (port_of shp address))"
    if "1 \<le> m" and "m \<le> length calls" for m
  proof -
    have "m - 1 < length calls" using that by simp
    then show ?thesis
      using that(1) by (simp add: eq split_beta)
  qed
  have A: "length (fst (dial_seq shp as calls)) = length calls"
    by (simp add: eq)
  have B: "\<forall>m. 1 \<le> m \<and> m \<le> length calls \<longrightarrow>
            fst (dial_seq shp as calls) ! (m - 1) =
              (case calls ! (m - 1) of (nd, network, address) \<Rightarrow>
                 round_robin_call (as_addrs as) m nd network (port_of shp address))"
    using nth by blast
  have C: "snd (dial_seq shp as calls) = as\<lparr>as_n := of_nat (length calls)\<rparr>"
    by (simp add: eq)
  have D: "length calls < 2 ^ 31 \<longrightarrow>
            sint (as_n (snd (dial_seq shp as calls))) = int (length calls)"
    by (simp add: eq sint32_small)
  show ?thesis
    using A B C D by blast
qed

text \<open>
  Four calls for \<open>example.com:443\<close> on a pool of two: the third dials the first address
  again, the fourth the second, and the index ends at 4.
\<close>

theorem aoverride_dial_round_robin_witness:
  "as_n pool2 = 0 \<and> as_addrs pool2 \<noteq> [] \<and> matches shp0 pool2 ''example.com:443'' \<and>
   length calls4 \<le> 2 ^ 31 \<and>
   fst (dial_seq shp0 pool2 calls4) ! (3 - 1)
     = (Return (Some (Conn ''10.0.0.1:443''), None), [NetDial ''tcp'' ''10.0.0.1:443'']) \<and>
   fst (dial_seq shp0 pool2 calls4) ! (4 - 1)
     = (Return (Some (Conn ''10.0.0.2:443''), None), [NetDial ''tcp'' ''10.0.0.2:443'']) \<and>
   sint (as_n (snd (dial_seq shp0 pool2 calls4))) = 4"
proof -
  have h1: "as_n pool2 = 0" and h2: "as_addrs pool2 \<noteq> []"
    by (simp_all add: pool2_def)
  have m: "matches shp0 pool2 ''example.com:443''"
    by (simp add: matches_def shp0_def pool2_def)
  then have h3: "\<forall>c \<in> set calls4. matches shp0 pool2 (snd (snd c))"
    by (simp add: calls4_def)
  have h4: "length calls4 \<le> 2 ^ 31"
    by (simp add: calls4_def)
  have p: "port_of shp0 ''example.com:443'' = ''443''"
    by (simp add: port_of_def shp0_def)
  note t = aoverride_dial_round_robin [OF h1 h2 h3 h4]
  have c3: "fst (dial_seq shp0 pool2 calls4) ! (3 - 1)
     = (Return (Some (Conn ''10.0.0.1:443''), None), [NetDial ''tcp'' ''10.0.0.1:443''])"
    using t [THEN conjunct2, THEN conjunct1, rule_format, of 3]
    by (simp add: calls4_def round_robin_call_def p nd_ok_def pool2_def Let_def
          numeral_2_eq_2 [symmetric])
  have c4: "fst (dial_seq shp0 pool2 calls4) ! (4 - 1)
     = (Return (Some (Conn ''10.0.0.2:443''), None), [NetDial ''tcp'' ''10.0.0.2:443''])"
    using t [THEN conjunct2, THEN conjunct1, rule_format, of 4]
    by (simp add: calls4_def round_robin_call_def p nd_ok_def pool2_def Let_def
          numeral_2_eq_2 [symmetric])
  have n: "sint (as_n (snd (dial_seq shp0 pool2 calls4))) = 4"
    using t by (simp add: calls4_def)
  show ?thesis
    using h1 h2 m h4 c3 c4 n by simp
qed

lemma replicate_numeral_snoc:
  "replicate 2147483649 x = replicate 2147483648 x @ [x]"
proof -
  have g: "replicate (Suc n) x = replicate n x @ [x]" for n
    by (simp add: replicate_append_same)
  have e: "Suc 2147483648 = 2147483649"
    by simp
  show ?thesis
    using g [of 2147483648] unfolding e .
qed

text \<open>
  C1 as stated fails once the \<open>int32\<close> index has wrapped: after \<open>2^31\<close> calls it is
  \<open>-2^31\<close>, whose remainder by 3 is \<open>-2\<close>, so on a pool of three the call number
  \<open>2^31 + 1\<close> panics on the index instead of selecting \<open>pool[2^31 mod 3]\<close>.
\<close>

theorem aoverride_dial_round_robin_counterexample:
  "fst (dial_seq shp0 pool3 (replicate 2147483649 (nd_ok, ''tcp'', ''example.com:443'')))
     ! (2147483649 - 1) = (Panic ''index out of range'', []) \<and>
   round_robin_call (as_addrs pool3) 2147483649 nd_ok ''tcp'' ''443''
     = (Return (Some (Conn ''10.0.0.3:443''), None), [NetDial ''tcp'' ''10.0.0.3:443''])"
proof -
  let ?c = "(nd_ok, ''tcp'', ''example.com:443'')"
  have m0: "matches shp0 pool3 ''example.com:443''"
    by (simp add: matches_def shp0_def pool3_def)
  have pre: "dial_seq shp0 pool3 (replicate 2147483648 ?c @ [?c]) =
           (map (\<lambda>(i, nd, network, address).
                   round_robin_call (as_addrs pool3) (Suc i) nd network (port_of shp0 address))
                (zip [0 ..< 0 + length (replicate 2147483648 ?c)] (replicate 2147483648 ?c))
              @ fst (dial_seq shp0 (pool3\<lparr>as_n := of_nat (0 + length (replicate 2147483648 ?c))\<rparr>) [?c]),
            snd (dial_seq shp0 (pool3\<lparr>as_n := of_nat (0 + length (replicate 2147483648 ?c))\<rparr>) [?c]))"
    by (rule dial_seq_prefix) (simp_all add: m0, simp_all add: pool3_def)
  have last: "dial shp0 nd_ok (pool3\<lparr>as_n := 2147483648\<rparr>) ''tcp'' ''example.com:443''
      = (Panic ''index out of range'', pool3\<lparr>as_n := 2147483648\<rparr>, [])"
    by (simp add: dial_def shp0_def pool3_def go_rem_def)
  have claimed: "round_robin_call (as_addrs pool3) 2147483649 nd_ok ''tcp'' ''443''
     = (Return (Some (Conn ''10.0.0.3:443''), None), [NetDial ''tcp'' ''10.0.0.3:443''])"
    by (simp add: round_robin_call_def pool3_def nd_ok_def Let_def)
  have "fst (dial_seq shp0 pool3 (replicate 2147483649 ?c)) ! (2147483649 - 1)
          = (Panic ''index out of range'', [])"
    unfolding replicate_numeral_snoc pre
    by (simp add: nth_append last)
  then show ?thesis
    using claimed by simp
qed

section \<open>aoverride.dial: another host\<close>

text \<open>
  C6. For every call of \<open>dial\<close> with an address whose host is not the override host, the
  only network dial is \<open>net.Dial(network, address)\<close> with the address unchanged, a
  connection it gives is returned as it is, and the selection index (and the pool) are
  unchanged by the call.
\<close>

theorem aoverride_dial_other_host:
  assumes "shp address = Inr (host, port)" and "host \<noteq> as_h as"
  shows "filter is_NetDial (snd (snd (dial shp nd as network address)))
           = [NetDial network address] \<and>
         as_n (fst (snd (dial shp nd as network address))) = as_n as \<and>
         as_addrs (fst (snd (dial shp nd as network address))) = as_addrs as \<and>
         (\<forall>c. nd network address = Inr c \<longrightarrow>
            fst (dial shp nd as network address) = Return (Some c, None))"
  using assms by (simp add: dial_def split: sum.splits)

text \<open>A call for \<open>other.com:80\<close> while the override host is \<open>example.com\<close>.\<close>

theorem aoverride_dial_other_host_witness:
  "shp0 ''other.com:80'' = Inr (''other.com'', ''80'') \<and> ''other.com'' \<noteq> as_h pool2 \<and>
   filter is_NetDial (snd (snd (dial shp0 nd_ok pool2 ''tcp'' ''other.com:80'')))
     = [NetDial ''tcp'' ''other.com:80''] \<and>
   as_n (fst (snd (dial shp0 nd_ok pool2 ''tcp'' ''other.com:80''))) = 0 \<and>
   fst (dial shp0 nd_ok pool2 ''tcp'' ''other.com:80'') = Return (Some (Conn ''other.com:80''), None)"
proof -
  have h1: "shp0 ''other.com:80'' = Inr (''other.com'', ''80'')"
    by (simp add: shp0_def)
  have h2: "''other.com'' \<noteq> as_h pool2"
    by (simp add: pool2_def)
  show ?thesis
    using h1 h2 aoverride_dial_other_host
            [where shp = shp0 and address = "''other.com:80''" and as = pool2
               and nd = nd_ok and network = "''tcp''", OF h1 h2]
    by (simp add: nd_ok_def pool2_def)
qed

text \<open>
  C10 says that the call returns the dial error without looking at the absent
  connection. The code calls \<open>c.RemoteAddr()\<close> before it looks at \<open>err\<close>: with
  \<open>example.com\<close> as the override host, a refused dial of \<open>other.com:80\<close> ends in a
  nil dereference, and nothing is returned to the caller.
\<close>

theorem aoverride_dial_other_host_dial_error:
  "dial shp0 nd_refused pool2 ''tcp'' ''other.com:80''
     = (Panic ''invalid memory address or nil pointer dereference'', pool2,
        [NetDial ''tcp'' ''other.com:80''])"
  by (simp add: dial_def shp0_def nd_refused_def pool2_def)

section \<open>Evaluating a run\<close>

text \<open>The equations that unfold a run of \<open>main\<close> on one of the sample command lines.\<close>

lemmas run_defs = main_def main_work_def run_def Start_def Stop_def PrintReport_def
  set_resolve_def parse_resolve_def launch_step_def runWorker_def ws_Dial_def
  worker_after_dial_def send_data_def
  io_Copy_def Write_def go_len_def CloseMessage_def
  chan_send_def chan_close_def try_recv_def make_chan_def usageAndExit_def
  flags0_def re_none_def dl_refused_def dl_ok_def dl_broken_def ws_script_def
  env_refused_def env_ok_def env_broken_def hostport0_def shp0_def nd_ok_def nd_refused_def
  dial_def
  go_rem_def Let_def eval_nat_numeral launch_loop.simps

section \<open>Work.Start: the launches and the pauses\<close>

lemma div_step:
  fixes i c :: int
  assumes "0 < c"
  shows "i div c = (i - 1) div c + (if i mod c = 0 then 1 else 0)"
proof -
  let ?q = "i div c" and ?r = "i mod c"
  have i: "i = c * ?q + ?r" by simp
  have r: "0 \<le> ?r" "?r < c" using assms by simp_all
  show ?thesis
  proof (cases "?r = 0")
    case True
    have "i - 1 = c * (?q - 1) + (c - 1)"
      using i True by (simp add: algebra_simps)
    then have "(i - 1) div c = ?q - 1"
      using assms by (intro int_div_pos_eq [where r = "c - 1"]) simp_all
    then show ?thesis using True by simp
  next
    case False
    have "i - 1 = c * ?q + (?r - 1)"
      using i by simp
    then have "(i - 1) div c = ?q"
      using r False by (intro int_div_pos_eq [where r = "?r - 1"]) simp_all
    then show ?thesis using False by simp
  qed
qed

lemma launch_step_returns: "w_CPS w \<noteq> 0 \<Longrightarrow> fst (launch_step w i) = Return ()"
  by (simp add: launch_step_def)

lemma launch_step_pauses:
  assumes "1 \<le> w_CPS w" and "1 \<le> i" and "i \<noteq> j"
  shows "fst (launch_step w i) = Return () \<and>
         (\<forall>rest. int (pauses_before j (snd (launch_step w i) @ rest)) =
           (if i mod w_CPS w = 0 then 1 else 0) + int (pauses_before j rest))"
  using assms by (simp add: launch_step_def go_rem_nonneg)

lemma launch_step_launched: "launched (snd (launch_step w i)) = [i]"
  by (simp add: launch_step_def)

lemma launch_step_first:
  "\<exists>ev. snd (launch_step w i) = GoWorker i # ev"
  by (simp add: launch_step_def)

lemma launch_loop_pauses:
  assumes "1 \<le> w_CPS w" and "1 \<le> i" and "i \<le> j" and "j < w_C w"
  shows "int (pauses_before j (snd (launch_loop w i)))
           = (j - 1) div w_CPS w - (i - 1) div w_CPS w"
  using assms
proof (induction w i rule: launch_loop.induct)
  case (1 w i)
  have lt: "i < w_C w" using "1.prems" by simp
  have c: "0 < w_CPS w" using "1.prems" by simp
  have "w_CPS w \<noteq> 0" using c by simp
  then obtain ev where s: "launch_step w i = (Return (), ev)"
    using launch_step_returns [of w i] by (cases "launch_step w i") auto
  have unfold: "snd (launch_loop w i) = ev @ snd (launch_loop w (i + 1))"
    using lt s by (subst launch_loop.simps) (simp add: split_beta)
  show ?case
  proof (cases "i = j")
    case True
    obtain ev' where "ev = GoWorker i # ev'"
      using launch_step_first [of w i] s by auto
    then show ?thesis
      using True unfold by simp
  next
    case False
    then have le: "i + 1 \<le> j" using "1.prems" by simp
    have IH: "int (pauses_before j (snd (launch_loop w (i + 1))))
           = (j - 1) div w_CPS w - (i + 1 - 1) div w_CPS w"
      using "1.IH" [OF lt s [symmetric] refl "1.prems"(1) _ le "1.prems"(4)] "1.prems"(2)
      by simp
    have "int (pauses_before j (snd (launch_loop w i))) =
           (if i mod w_CPS w = 0 then 1 else 0)
             + int (pauses_before j (snd (launch_loop w (i + 1))))"
      using launch_step_pauses [OF "1.prems"(1) "1.prems"(2) False] s unfold by simp
    also have "\<dots> = (j - 1) div w_CPS w - (i - 1) div w_CPS w"
      using IH div_step [OF c, of i] by simp
    finally show ?thesis .
  qed
qed

lemma launch_loop_zero:
  assumes "0 < w_C w"
  shows "launch_loop w 0 = (fst (launch_loop w 1), GoWorker 0 # snd (launch_loop w 1))"
  using assms by (subst launch_loop.simps) (simp add: launch_step_def split_beta)

lemma launch_loop_pauses_from_start:
  assumes "1 \<le> w_CPS w" and "1 \<le> j" and "j < w_C w"
  shows "int (pauses_before j (snd (launch_loop w 0))) = (j - 1) div w_CPS w"
proof -
  have "0 < w_C w" using assms by simp
  then have "pauses_before j (snd (launch_loop w 0)) = pauses_before j (snd (launch_loop w 1))"
    using assms(2) by (simp add: launch_loop_zero)
  then show ?thesis
    using launch_loop_pauses [OF assms(1) _ assms(2) assms(3)] by simp
qed

lemma launched_append: "launched (xs @ ys) = launched xs @ launched ys"
  by (induction xs rule: launched.induct) simp_all

lemma launch_loop_launched:
  assumes "w_CPS w \<noteq> 0"
  shows "launched (snd (launch_loop w i)) = [i .. w_C w - 1]"
  using assms
proof (induction w i rule: launch_loop.induct)
  case (1 w i)
  show ?case
  proof (cases "i < w_C w")
    case True
    obtain ev where s: "launch_step w i = (Return (), ev)" and l: "launched ev = [i]"
      using launch_step_returns [OF "1.prems", of i] launch_step_launched [of w i]
      by (cases "launch_step w i") auto
    have "launched (snd (launch_loop w (i + 1))) = [i + 1 .. w_C w - 1]"
      using "1.IH" [OF True s [symmetric] refl "1.prems"] .
    moreover have "snd (launch_loop w i) = ev @ snd (launch_loop w (i + 1))"
      using True s by (subst launch_loop.simps) (simp add: split_beta)
    moreover have "[i .. w_C w - 1] = i # [i + 1 .. w_C w - 1]"
      using True by (subst upto_rec1) simp_all
    ultimately show ?thesis
      using l by (simp add: launched_append)
  next
    case False
    then show ?thesis
      by (subst launch_loop.simps) simp
  qed
qed

text \<open>
  C2 says that the launch number \<open>N\<close> comes after exactly \<open>floor((N-1)/rate)\<close> pauses.
  The code launches the workers \<open>0, ..., C-1\<close> in this order (\<open>launch_loop_launched\<close>)
  but tests \<open>i % CPS\<close> after the launch of worker \<open>i\<close>, that is once \<open>i + 1\<close> workers
  run: the launch number \<open>N \<ge> 2\<close> comes after \<open>floor((N-2)/rate)\<close> pauses
  (\<open>launch_loop_pauses_from_start\<close>). Under \<open>-c 2 -q 1\<close> both workers are started
  before the first pause, where the claim has one pause before the second launch.
\<close>

theorem start_rate_one_two_workers:
  "main re_none env_refused (flags0\<lparr>f_conc := 2, f_q := 1\<rparr>) =
     (Return (),
      [GoWorker 0, GoWorker 1, Sleep,
       Logged [AStr ''fatal error dialing websocket '', AInt 0, AStr '':'',
               AStr ''dial tcp: connection refused''],
       Logged [AStr ''fatal error dialing websocket '', AInt 1, AStr '':'',
               AStr ''dial tcp: connection refused''],
       Stdout [AInt 0, AStr ''bytes read from'', AInt 2, AStr ''websockets'']]) \<and>
   pauses_before 1 (snd (main re_none env_refused (flags0\<lparr>f_conc := 2, f_q := 1\<rparr>))) = 0"
  by (simp add: run_defs)

section \<open>Work.Start: the resolution override\<close>

text \<open>
  C3 says that every comma-separated address is a pool entry of its own. The code
  splits the argument at colons only: \<open>example.com:443:10.0.0.1,10.0.0.2\<close> gives a
  pool of one entry, \<open>10.0.0.1,10.0.0.2\<close>, and each of four dials for
  \<open>example.com:443\<close> goes to \<open>10.0.0.1,10.0.0.2:443\<close>.
\<close>

theorem resolve_comma_list_one_entry:
  "parse_resolve ''example.com:443:10.0.0.1,10.0.0.2''
     = Return \<lparr>as_addrs = [''10.0.0.1,10.0.0.2''], as_n = 0, as_h = ''example.com'',
               as_seen = []\<rparr> \<and>
   map snd (fst (dial_seq shp0
       \<lparr>as_addrs = [''10.0.0.1,10.0.0.2''], as_n = 0, as_h = ''example.com'', as_seen = []\<rparr>
       calls4))
     = [[NetDial ''tcp'' ''10.0.0.1,10.0.0.2:443''], [NetDial ''tcp'' ''10.0.0.1,10.0.0.2:443''],
        [NetDial ''tcp'' ''10.0.0.1,10.0.0.2:443''], [NetDial ''tcp'' ''10.0.0.1,10.0.0.2:443'']]"
  by (simp add: parse_resolve_def calls4_def dial_def shp0_def nd_ok_def go_rem_def
        eval_nat_numeral Let_def)

text \<open>
  C8 says that an unparsable override ends in the usage text and exit status 1. The
  code does not check the argument: under \<open>-resolve example.com\<close> the slice
  expression \<open>r[2:]\<close> of \<open>Start\<close> panics, and nothing was printed before.
\<close>

theorem resolve_without_colon_panics:
  "main re_none env_ok (flags0\<lparr>f_resolve := ''example.com''\<rparr>) =
     (Panic ''slice bounds out of range [2:1]'', [])"
  by (simp add: run_defs)

section \<open>Work.Stop\<close>

text \<open>
  C4 says that every connection in the queue is sent a close frame, a failure being
  logged only. The code returns from \<open>Stop\<close> at the first failure: with two
  connections in the queue and a broken first one, the second is sent nothing.
\<close>

theorem stop_returns_at_first_failed_close:
  "main re_none env_broken (flags0\<lparr>f_conc := 2\<rparr>) =
     (Return (),
      [GoWorker 0, GoWorker 1, CloseFrame 0,
       Logged [AStr ''write close:'', AStr ''broken pipe''],
       Stdout [AInt 200, AStr ''bytes read from'', AInt 2, AStr ''websockets'']])"
  by (simp add: run_defs)

section \<open>Work.runWorker\<close>

text \<open>\<open>main\<close> never copies the \<open>-d\<close> argument into the \<open>Work\<close>: no payload is configured.\<close>

lemma main_work_SendData:
  "fst (main_work re f) = Return w \<Longrightarrow> w_SendData w = []"
  by (auto simp: main_work_def Let_def split: if_splits prod.splits outcome.splits)

lemma send_data_empty:
  "w_SendData w = [] \<Longrightarrow> send_data w ws = (Return (), [])"
  by (simp add: send_data_def)

text \<open>
  C5 says that under \<open>-d\<close> every worker whose dial succeeds writes the payload. Under
  \<open>-c 1 -d hello\<close>, with a target that accepts, the worker writes nothing: the run
  has no \<open>NextWriter\<close> and no \<open>WriteString\<close> event.
\<close>

theorem payload_flag_never_sent:
  "main re_none env_ok (flags0\<lparr>f_conc := 1, f_body := ''hello''\<rparr>) =
     (Return (),
      [GoWorker 0, CloseFrame 0,
       Stdout [AInt 100, AStr ''bytes read from'', AInt 1, AStr ''websockets'']])"
  by (simp add: run_defs)

section \<open>Failed dials\<close>

lemma parse_headers_events:
  "fst (parse_headers re hs header) = Return header' \<Longrightarrow> snd (parse_headers re hs header) = []"
  by (induction hs arbitrary: header) (auto split: sum.splits if_splits)

text \<open>
  A worker that is handed a failed dial logs it and returns; the \<open>Work\<close>, its queues
  included, is as before.
\<close>

lemma worker_after_dial_failed:
  assumes "\<forall>ws. dr \<noteq> DialOk ws"
  shows "fst (worker_after_dial w i dr) = Return () \<and> fst (snd (worker_after_dial w i dr)) = w"
  using assms by (cases dr) (simp_all add: worker_after_dial_def)

lemma runWorker_dial_failed:
  assumes "w_ao w = None" and "\<forall>ws. e_dl en i \<noteq> DialOk ws"
  shows "fst (runWorker en w i) = Return () \<and> fst (snd (runWorker en w i)) = w"
proof -
  have d: "ws_Dial en w i = (Return (e_dl en i), w, [])"
    using assms(1) by (simp add: ws_Dial_def)
  show ?thesis
    using worker_after_dial_failed [OF assms(2), of w i]
    by (simp add: runWorker_def d split_beta)
qed

lemma run_workers_dial_failed:
  assumes "w_ao w = None" and "\<forall>i ws. e_dl en i \<noteq> DialOk ws"
  shows "fst (run_workers en w xs) = Return () \<and> fst (snd (run_workers en w xs)) = w"
proof (induction xs)
  case Nil
  show ?case by simp
next
  case (Cons i xs)
  have "\<forall>ws. e_dl en i \<noteq> DialOk ws"
    using assms(2) by simp
  from runWorker_dial_failed [OF assms(1) this]
  obtain ev where r: "runWorker en w i = (Return (), w, ev)"
    by (cases "runWorker en w i") auto
  show ?case
    using Cons.IH by (simp add: r split_beta)
qed

lemma launch_loop_returns: "w_CPS w \<noteq> 0 \<Longrightarrow> fst (launch_loop w i) = Return ()"
proof (induction w i rule: launch_loop.induct)
  case (1 w i)
  show ?case
  proof (cases "i < w_C w")
    case True
    obtain ev where s: "launch_step w i = (Return (), ev)"
      using launch_step_returns [OF "1.prems", of i] by (cases "launch_step w i") auto
    have "fst (launch_loop w (i + 1)) = Return ()"
      using "1.IH" [OF True s [symmetric] refl] "1.prems" by simp
    then show ?thesis
      using True s by (subst launch_loop.simps) (simp add: split_beta)
  next
    case False
    then show ?thesis
      by (subst launch_loop.simps) simp
  qed
qed

lemma send_stops_room:
  "\<not> chan_closed q \<Longrightarrow> length (chan_buf q) + k \<le> chan_cap q \<Longrightarrow>
   send_stops k (Some q) = (Return (), Some (q\<lparr>chan_buf := chan_buf q @ replicate k ()\<rparr>))"
proof (induction k arbitrary: q)
  case 0
  then show ?case by simp
next
  case (Suc k)
  have "chan_send (Some q) () = Return (q\<lparr>chan_buf := chan_buf q @ [()]\<rparr>)"
    using Suc.prems by (simp add: chan_send_def)
  moreover have "send_stops k (Some (q\<lparr>chan_buf := chan_buf q @ [()]\<rparr>)) =
    (Return (), Some (q\<lparr>chan_buf := chan_buf q @ [()] @ replicate k ()\<rparr>))"
    using Suc.prems Suc.IH [of "q\<lparr>chan_buf := chan_buf q @ [()]\<rparr>"] by simp
  ultimately show ?case
    by (simp add: replicate_app_Cons_same)
qed

lemma Start_dial_failed:
  assumes "\<forall>i ws. e_dl en i \<noteq> DialOk ws" and "0 \<le> w_C w" and "w_CPS w \<noteq> 0"
    and "w_resolve w = []" and "w_ao w = None"
  shows "\<exists>w' lev wev. Start en w = (Return (), w', lev, wev) \<and>
           w_sockets w' = Some (make_chan (nat (w_C w))) \<and>
           w_counters w' = Some (make_chan (nat (w_C w))) \<and>
           w_stopCh w' = Some (make_chan (nat (w_C w))) \<and>
           w_C w' = w_C w \<and> w_verbose w' = w_verbose w"
proof -
  let ?w1 = "w\<lparr>w_sockets := Some (make_chan (nat (w_C w))),
                w_counters := Some (make_chan (nat (w_C w))),
                w_stopCh := Some (make_chan (nat (w_C w)))\<rparr>"
  have sr: "set_resolve ?w1 = Return ?w1"
    using assms(4) by (simp add: set_resolve_def)
  have ao: "w_ao ?w1 = None"
    using assms(5) by simp
  obtain ev where ll: "launch_loop ?w1 0 = (Return (), ev)"
    using launch_loop_returns [of ?w1 0] assms(3)
    by (cases "launch_loop ?w1 0") auto
  obtain wev where rw: "run_workers en ?w1 (launched ev) = (Return (), ?w1, wev)"
    using run_workers_dial_failed [OF ao assms(1), of "launched ev"]
    by (cases "run_workers en ?w1 (launched ev)") auto
  show ?thesis
    using assms(2) sr ll rw
    by (simp add: Start_def Let_def)
qed

lemma run_dial_failed:
  assumes "\<forall>i ws. e_dl en i \<noteq> DialOk ws" and "0 \<le> w_C w" and "w_CPS w \<noteq> 0"
    and "w_resolve w = []" and "w_ao w = None"
  shows "fst (run en w) = Return () \<and>
         snd (snd (run en w)) \<noteq> [] \<and>
         last (snd (snd (run en w))) =
           Stdout [AInt 0, AStr ''bytes read from'', AInt (w_C w), AStr ''websockets'']"
proof -
  from Start_dial_failed [OF assms]
  obtain w' lev wev where st: "Start en w = (Return (), w', lev, wev)"
    and so: "w_sockets w' = Some (make_chan (nat (w_C w)))"
    and co: "w_counters w' = Some (make_chan (nat (w_C w)))"
    and sc: "w_stopCh w' = Some (make_chan (nat (w_C w)))"
    and c: "w_C w' = w_C w"
    by blast
  have ss: "send_stops (nat (w_C w)) (Some (make_chan (nat (w_C w)))) =
      (Return (), Some ((make_chan (nat (w_C w)))\<lparr>chan_buf := replicate (nat (w_C w)) ()\<rparr>))"
    using send_stops_room [of "make_chan (nat (w_C w))" "nat (w_C w)"]
    by (simp add: make_chan_def)
  obtain w'' sev where stop: "Stop w' = (Return (), w'', sev)"
    and co': "w_counters w'' = Some ((make_chan (nat (w_C w)))\<lparr>chan_closed := True\<rparr>)"
    and c': "w_C w'' = w_C w"
    using so co sc c ss
    by (simp add: Stop_def Let_def chan_close_def make_chan_def)
  have pr: "PrintReport w'' = (Return (), w''\<lparr>w_counters := Some ((make_chan (nat (w_C w)))\<lparr>chan_closed := True, chan_buf := []\<rparr>)\<rparr>,
      [Stdout [AInt 0, AStr ''bytes read from'', AInt (w_C w), AStr ''websockets'']])"
    using co' c' by (simp add: PrintReport_def Let_def make_chan_def)
  show ?thesis
    by (simp add: run_def st stop pr)
qed

text \<open>
  Without \<open>-resolve\<close> the dialer has no hook, and a run in which every dial fails is
  not aborted: on a command line with a URL, well-formed headers and \<open>C \<ge> 1\<close>,
  \<open>main\<close> returns and the last thing it prints is the report of 0 bytes.
\<close>

lemma main_dial_failures_without_override:
  assumes "\<forall>i ws. e_dl en i \<noteq> DialOk ws"
    and "f_args f \<noteq> []"
    and "fst (parse_headers re (f_hs f) Map.empty) = Return header"
    and "1 \<le> f_conc f"
    and "f_resolve f = []"
  shows "fst (main re en f) = Return () \<and>
         last (snd (main re en f)) =
           Stdout [AInt 0, AStr ''bytes read from'', AInt (f_conc f), AStr ''websockets'']"
proof -
  let ?w = "\<lparr>w_N = 0, w_C = f_conc f, w_CPS = (if f_q f = 0 then f_conc f else f_q f),
             w_Timeout = f_t f, w_URL = hd (f_args f), w_resolve = f_resolve f,
             w_SendData = [], w_verbose = f_v f, w_vv = f_vv f, w_k = f_k f,
             w_sockets = None, w_counters = None, w_ao = None,
             w_header = header, w_stopCh = None,
             w_heap = (\<lambda>a. \<lparr>c_N = 0\<rparr>), w_next = 0\<rparr>"
  have ph: "parse_headers re (f_hs f) Map.empty = (Return header, [])"
    using assms(3) parse_headers_events [OF assms(3)] by (simp add: prod_eq_iff)
  have mw: "main_work re f = (Return ?w, [])"
    using assms(2) ph by (simp add: main_work_def Let_def)
  have cps: "w_CPS ?w \<noteq> 0"
    using assms(4) by simp
  have c: "0 \<le> w_C ?w"
    using assms(4) by simp
  have rs: "w_resolve ?w = []"
    using assms(5) by simp
  have ao: "w_ao ?w = None"
    by simp
  note r = run_dial_failed [OF assms(1) c cps rs ao]
  have m: "main re en f = (fst (run en ?w), snd (snd (run en ?w)))"
    by (simp add: main_def mw split_beta)
  show ?thesis
    using r by (simp add: m)
qed

text \<open>
  C7 says that a worker whose dial fails publishes nothing and that the run is not
  aborted, the report printing 0 bytes even when every dial fails. The first half
  holds (\<open>worker_after_dial_failed\<close>), and so does the second on runs without an
  override (\<open>main_dial_failures_without_override\<close>). Under
  \<open>-c 1 -resolve example.com:443:10.0.0.1,10.0.0.2 ws://127.0.0.1:1/\<close>, with a target
  that refuses the connection, the dial of the worker goes through the hook
  \<open>aoverride.dial\<close>, whose branch for another host dereferences the nil connection:
  the worker panics, the process ends and no report is printed.
\<close>

theorem dial_failure_under_override_aborts_run:
  "main re_none env_refused
     (flags0\<lparr>f_conc := 1, f_resolve := ''example.com:443:10.0.0.1,10.0.0.2'',
             f_args := [''ws://127.0.0.1:1/'']\<rparr>) =
     (Panic ''invalid memory address or nil pointer dereference'',
      [GoWorker 0, NetDial ''tcp'' ''127.0.0.1:1''])"
  by (simp add: run_defs)

end
